theory Spec2Isabelle
  imports Main
begin

section \<open>Values\<close>

text \<open>
  A Go \<^verbatim>\<open>error\<close> value that is not nil. The handlers only test an error against
  nil; \<^verbatim>\<open>main\<close> prints its message.
\<close>

datatype error = Error string

fun message :: "error \<Rightarrow> string" where
  "message (Error m) = m"

text \<open>\<^verbatim>\<open>type User struct { Name string `json:"name"`; Email string `json:"email"` }\<close>\<close>

record User =
  Name :: string
  Email :: string

text \<open>\<^verbatim>\<open>var user User\<close>: the zero value of the struct.\<close>

definition zero_User :: User where
  "zero_User = \<lparr>Name = [], Email = []\<rparr>"

text \<open>
  What \<^verbatim>\<open>encoding/json\<close> is asked to encode. The fields of an object stand in the
  order of the source (the encoder writes the keys of a map sorted).
\<close>

datatype json = JNull | JString string | JArray "json list" | JObject "(string \<times> json) list"

text \<open>A \<^verbatim>\<open>User\<close> is encoded under the names of its \<^verbatim>\<open>json\<close> tags, in field order.\<close>

definition json_User :: "User \<Rightarrow> json" where
  "json_User u = JObject [(''name'', JString (Name u)), (''email'', JString (Email u))]"

text \<open>
  A Go slice is nil (\<open>None\<close>) or holds elements: the encoder writes \<^verbatim>\<open>null\<close> for
  a nil slice and an array for any other, also an empty one.
\<close>

type_synonym 'a slice = "'a list option"

fun append_slice :: "'a slice \<Rightarrow> 'a \<Rightarrow> 'a slice" where
  "append_slice None x = Some [x]"
| "append_slice (Some xs) x = Some (xs @ [x])"

fun json_slice :: "json slice \<Rightarrow> json" where
  "json_slice None = JNull"
| "json_slice (Some xs) = JArray xs"

section \<open>Requests and responses (net/http)\<close>

text \<open>
  The part of \<^verbatim>\<open>*http.Request\<close> the program reads: \<^verbatim>\<open>r.Method\<close>,
  \<^verbatim>\<open>r.URL.Path\<close> and \<^verbatim>\<open>r.URL.EscapedPath()\<close> (both read by the router only;
  the first is the second with its percent-encoding undone), the \<^verbatim>\<open>url.Values\<close>
  that \<^verbatim>\<open>r.URL.Query()\<close> returns, and the bytes of \<^verbatim>\<open>r.Body\<close>.
\<close>

record Request =
  Method :: string
  URL_Path :: string
  URL_EscapedPath :: string
  URL_Query :: "string \<rightharpoonup> string list"
  Body :: string

text \<open>\<^verbatim>\<open>url.Values.Get\<close>: the first value of the key, or the empty string.\<close>

definition Values_Get :: "(string \<rightharpoonup> string list) \<Rightarrow> string \<Rightarrow> string" where
  "Values_Get v key = (case v key of None \<Rightarrow> [] | Some [] \<Rightarrow> [] | Some (x # _) \<Rightarrow> x)"

definition MethodGet :: string where "MethodGet = ''GET''"
definition MethodPost :: string where "MethodPost = ''POST''"

definition StatusOK :: nat where "StatusOK = 200"
definition StatusBadRequest :: nat where "StatusBadRequest = 400"
definition StatusNotFound :: nat where "StatusNotFound = 404"
definition StatusMethodNotAllowed :: nat where "StatusMethodNotAllowed = 405"
definition StatusInternalServerError :: nat where "StatusInternalServerError = 500"

text \<open>
  What a handler writes to the body: raw bytes, or a value handed to
  \<^verbatim>\<open>json.NewEncoder(w).Encode\<close> (its JSON text and a newline).
\<close>

datatype chunk = Bytes string | Encoded json

text \<open>
  The \<^verbatim>\<open>http.ResponseWriter\<close> of one request: the header map, the status code once
  \<^verbatim>\<open>WriteHeader\<close> has been called, and what has been written to the body.
\<close>

record ResponseWriter =
  header :: "string \<rightharpoonup> string"
  code :: "nat option"
  written :: "chunk list"

definition new_ResponseWriter :: ResponseWriter where
  "new_ResponseWriter = \<lparr>header = Map.empty, code = None, written = []\<rparr>"

definition Header_Set :: "string \<Rightarrow> string \<Rightarrow> ResponseWriter \<Rightarrow> ResponseWriter" where
  "Header_Set k v w = w\<lparr>header := (header w)(k \<mapsto> v)\<rparr>"

text \<open>Only the first \<^verbatim>\<open>WriteHeader\<close> counts.\<close>

definition WriteHeader :: "nat \<Rightarrow> ResponseWriter \<Rightarrow> ResponseWriter" where
  "WriteHeader c w = (case code w of None \<Rightarrow> w\<lparr>code := Some c\<rparr> | Some _ \<Rightarrow> w)"

text \<open>A write before any \<^verbatim>\<open>WriteHeader\<close> sends status 200 first.\<close>

definition Write :: "chunk \<Rightarrow> ResponseWriter \<Rightarrow> ResponseWriter" where
  "Write b w = (let w' = WriteHeader StatusOK w in w'\<lparr>written := written w' @ [b]\<rparr>)"

text \<open>The status the client receives: 200 when the handler returned without setting one.\<close>

definition status :: "ResponseWriter \<Rightarrow> nat" where
  "status w = (case code w of None \<Rightarrow> StatusOK | Some c \<Rightarrow> c)"

text \<open>\<^verbatim>\<open>http.Error(w, msg, code)\<close>\<close>

definition http_Error :: "ResponseWriter \<Rightarrow> string \<Rightarrow> nat \<Rightarrow> ResponseWriter" where
  "http_Error w msg c =
     Write (Bytes (msg @ [CHR 0x0A]))
       (WriteHeader c
         (Header_Set ''X-Content-Type-Options'' ''nosniff''
           (Header_Set ''Content-Type'' ''text/plain; charset=utf-8'' w)))"

section \<open>The libraries the handlers call\<close>

text \<open>
  The Firestore client is not part of the repository; the handlers are written against
  its operations on the collection \<^verbatim>\<open>users\<close>, which are parameters here. \<open>'s\<close> is
  the state of the store (and of the network in front of it), \<open>'it\<close> a document
  iterator, \<open>'d\<close> a document snapshot.
  \<^item> \<open>Add s user\<close>: \<^verbatim>\<open>client.Collection("users").Add(ctx, user)\<close>, the error or
    \<^verbatim>\<open>docRef.ID\<close>, and the store afterwards;
  \<^item> \<open>Get s id\<close>: \<^verbatim>\<open>client.Collection("users").Doc(id).Get(ctx)\<close>;
  \<^item> \<open>Documents s\<close>: \<^verbatim>\<open>client.Collection("users").Documents(ctx)\<close>;
  \<^item> \<open>Next it\<close>: \<^verbatim>\<open>iter.Next()\<close>, the error or the document, and the iterator
    afterwards;
  \<^item> \<open>DataTo doc user\<close>: \<^verbatim>\<open>doc.DataTo(&user)\<close>, the error if any and the struct
    as the call leaves it;
  \<^item> \<open>Ref_ID doc\<close>: \<^verbatim>\<open>doc.Ref.ID\<close>.
\<close>

record ('s, 'it, 'd) Client =
  Add :: "'s \<Rightarrow> User \<Rightarrow> (error + string) \<times> 's"
  Get :: "'s \<Rightarrow> string \<Rightarrow> error + 'd"
  Documents :: "'s \<Rightarrow> 'it"
  Next :: "'it \<Rightarrow> (error + 'd) \<times> 'it"
  DataTo :: "'d \<Rightarrow> User \<Rightarrow> error option \<times> User"
  Ref_ID :: "'d \<Rightarrow> string"

text \<open>
  \<^verbatim>\<open>json.NewDecoder(r.Body).Decode(&user)\<close> on a zero \<^verbatim>\<open>User\<close>: the error, or the
  struct it filled. The decoder belongs to \<^verbatim>\<open>encoding/json\<close> and is a parameter too.
\<close>

type_synonym Decoder = "string \<Rightarrow> error + User"

section \<open>The handlers\<close>

definition addUserHandler ::
  "Decoder \<Rightarrow> ('s, 'it, 'd) Client \<Rightarrow> 's \<Rightarrow> ResponseWriter \<Rightarrow> Request \<Rightarrow> ResponseWriter \<times> 's" where
  "addUserHandler Decode client s w r =
     (if Method r \<noteq> MethodPost
      then (http_Error w ''Invalid request method'' StatusMethodNotAllowed, s)
      else
        case Decode (Body r) of
          Inl err \<Rightarrow> (http_Error w ''Invalid request body'' StatusBadRequest, s)
        | Inr user \<Rightarrow>
            (case Add client s user of
               (Inl err, s') \<Rightarrow> (http_Error w ''Error adding user'' StatusInternalServerError, s')
             | (Inr docRef_ID, s') \<Rightarrow>
                 (let response =
                        [(''message'', JString ''User added successfully''),
                         (''id'', JString docRef_ID),
                         (''user'', json_User user)]
                  in (Write (Encoded (JObject response))
                        (Header_Set ''Content-Type'' ''application/json'' w), s'))))"

definition getUserHandler ::
  "('s, 'it, 'd) Client \<Rightarrow> 's \<Rightarrow> ResponseWriter \<Rightarrow> Request \<Rightarrow> ResponseWriter \<times> 's" where
  "getUserHandler client s w r =
     (if Method r \<noteq> MethodGet
      then (http_Error w ''Invalid request method'' StatusMethodNotAllowed, s)
      else
        let userID = Values_Get (URL_Query r) ''id'' in
        if userID = []
        then (http_Error w ''User ID required'' StatusBadRequest, s)
        else
          case Get client s userID of
            Inl err \<Rightarrow> (http_Error w ''User not found'' StatusNotFound, s)
          | Inr doc \<Rightarrow>
              (let user = snd (DataTo client doc zero_User);
                   response = [(''id'', JString userID), (''user'', json_User user)]
               in (Write (Encoded (JObject response))
                     (Header_Set ''Content-Type'' ''application/json'' w), s)))"

text \<open>
  The \<^verbatim>\<open>for\<close> loop of \<^verbatim>\<open>listUsersHandler\<close>. It ends at the first error of
  \<^verbatim>\<open>iter.Next()\<close> and at nothing else, so it is a partial function: \<open>None\<close> is the
  loop that never ends.
\<close>

partial_function (option) listUsers_loop ::
  "('s, 'it, 'd) Client \<Rightarrow> 'it \<Rightarrow> json slice \<Rightarrow> json slice option" where
  "listUsers_loop client iter users =
     (case Next client iter of
        (Inl err, iter') \<Rightarrow> Some users
      | (Inr doc, iter') \<Rightarrow>
          (let user = snd (DataTo client doc zero_User)
           in listUsers_loop client iter'
                (append_slice users
                   (JObject [(''id'', JString (Ref_ID client doc)), (''user'', json_User user)]))))"

definition listUsersHandler ::
  "('s, 'it, 'd) Client \<Rightarrow> 's \<Rightarrow> ResponseWriter \<Rightarrow> Request \<Rightarrow> (ResponseWriter \<times> 's) option" where
  "listUsersHandler client s w r =
     (if Method r \<noteq> MethodGet
      then Some (http_Error w ''Invalid request method'' StatusMethodNotAllowed, s)
      else
        case listUsers_loop client (Documents client s) (Some []) of
          None \<Rightarrow> None
        | Some users \<Rightarrow>
            Some (Write (Encoded (json_slice users))
                    (Header_Set ''Content-Type'' ''application/json'' w), s))"

declare listUsers_loop.simps [code]

text \<open>
  The template of \<^verbatim>\<open>homeHandler\<close>, a raw string literal: a newline, the lines
  below (each behind its tabs and before a newline), and the tab of the closing line.
\<close>

definition tmpl_lines :: "(nat \<times> string) list" where
  \<open>tmpl_lines =
    [
     (1, ''<!DOCTYPE html>''),
     (1, ''<html lang="en">''),
     (1, ''<head>''),
     (2, ''<meta charset="UTF-8">''),
     (2, ''<meta name="viewport" content="width=device-width, initial-scale=1.0">''),
     (2, ''<title>Firestore API</title>''),
     (2, ''<style>''),
     (3, ''body { font-family: Arial, sans-serif; text-align: center; padding: 20px; }''),
     (3, ''h1 { color: #2c3e50; }''),
     (3, ''.container { max-width: 600px; margin: auto; padding: 20px; border-radius: 10px; background: #f4f4f4; }''),
     (3, ''.api-list { text-align: left; margin-top: 20px; }''),
     (3, ''a { color: #2980b9; text-decoration: none; font-weight: bold; }''),
     (2, ''</style>''),
     (1, ''</head>''),
     (1, ''<body>''),
     (2, ''<div class="container">''),
     (3, ''<h1>'' @ [CHR 0xF0] @ [CHR 0x9F] @ [CHR 0x94] @ [CHR 0xA5] @ '' Welcome to Firestore API</h1>''),
     (3, ''<p>This API allows you to store and retrieve users from Firestore.</p>''),
     (3, ''<div class="api-list">''),
     (4, ''<h3>Available Endpoints:</h3>''),
     (4, ''<ul>''),
     (5, ''<li><strong>POST</strong> <a href="/addUser">/addUser</a> - Add a user (use Postman or curl)</li>''),
     (5, ''<li><strong>GET</strong> <a href="/listUsers">/listUsers</a> - List all users</li>''),
     (5, ''<li><strong>GET</strong> <a href="/getUser?id=yourUserID">/getUser?id=yourUserID</a> - Get user by ID</li>''),
     (4, ''</ul>''),
     (3, ''</div>''),
     (2, ''</div>''),
     (1, ''</body>''),
     (1, ''</html>'')
    ]\<close>

definition tmpl :: string where
  "tmpl =
     [CHR 0x0A] @ concat (map (\<lambda>(n, l). replicate n (CHR 0x09) @ l @ [CHR 0x0A]) tmpl_lines)
       @ [CHR 0x09]"

text \<open>
  The template has no action, so \<^verbatim>\<open>t.Execute(w, nil)\<close> writes its text; the handler
  reads nothing of the request.
\<close>

definition homeHandler :: "ResponseWriter \<Rightarrow> Request \<Rightarrow> ResponseWriter" where
  "homeHandler w r = Write (Bytes tmpl) w"

section \<open>Routing (the default ServeMux of net/http)\<close>

text \<open>
  \<^verbatim>\<open>main\<close> registers its handlers with \<^verbatim>\<open>http.HandleFunc\<close> and serves with
  \<^verbatim>\<open>http.ListenAndServe(":8000", nil)\<close>, that is with the default \<^verbatim>\<open>ServeMux\<close>
  of the standard library, which is not part of the repository. The router is modelled
  after its documented behaviour for patterns without a host, a method or a wildcard: a
  pattern that does not end in a slash matches its own path only, a pattern that ends
  in a slash matches every path it is a prefix of, and the longest matching pattern
  wins; a request whose path is not in canonical form (it has a repeated slash, or a
  \<^verbatim>\<open>.\<close> or \<^verbatim>\<open>..\<close> element) is answered with a redirect to the cleaned path.
\<close>

type_synonym 's HandlerFunc =
  "'s \<Rightarrow> ResponseWriter \<Rightarrow> Request \<Rightarrow> (ResponseWriter \<times> 's) option"

fun split_path :: "string \<Rightarrow> string list" where
  "split_path [] = [[]]"
| "split_path (c # cs) =
     (if c = CHR ''/'' then [] # split_path cs
      else (case split_path cs of [] \<Rightarrow> [[c]] | e # es \<Rightarrow> (c # e) # es))"

fun join_path :: "string list \<Rightarrow> string" where
  "join_path [] = []"
| "join_path [e] = e"
| "join_path (e # es) = e @ CHR ''/'' # join_path es"

text \<open>
  The elements of a rooted path as \<^verbatim>\<open>path.Clean\<close> keeps them: an empty element and
  \<^verbatim>\<open>.\<close> are dropped, \<^verbatim>\<open>..\<close> drops the element before it (none at the root).
\<close>

fun clean_elems :: "string list \<Rightarrow> string list \<Rightarrow> string list" where
  "clean_elems out [] = out"
| "clean_elems out (e # es) =
     (if e = [] \<or> e = ''.'' then clean_elems out es
      else if e = ''..'' then clean_elems (butlast out) es
      else clean_elems (out @ [e]) es)"

text \<open>\<^verbatim>\<open>path.Clean\<close> on a rooted path.\<close>

definition path_Clean :: "string \<Rightarrow> string" where
  "path_Clean p = CHR ''/'' # join_path (clean_elems [] (split_path p))"

text \<open>
  \<^verbatim>\<open>cleanPath\<close> of net/http: the path is rooted, cleaned, and given back the trailing
  slash that cleaning took.
\<close>

definition cleanPath :: "string \<Rightarrow> string" where
  "cleanPath p =
     (if p = [] then ''/''
      else
        let p' = (if hd p \<noteq> CHR ''/'' then CHR ''/'' # p else p);
            np = path_Clean p'
        in if last p' = CHR ''/'' \<and> np \<noteq> ''/''
           then (if length p' = length np + 1 \<and> take (length np) p' = np then p' else np @ ''/'')
           else np)"

text \<open>
  The handler of a path: the pattern equal to it, or else the longest pattern that ends
  in a slash and is a prefix of it.
\<close>

definition ServeMux_match :: "(string \<times> 'h) list \<Rightarrow> string \<Rightarrow> 'h option" where
  "ServeMux_match m path =
     (case map_of m path of
        Some h \<Rightarrow> Some h
      | None \<Rightarrow>
          (case filter (\<lambda>(p, h). p \<noteq> [] \<and> last p = CHR ''/'' \<and> take (length p) path = p) m of
             [] \<Rightarrow> None
           | e # es \<Rightarrow>
               Some (snd (foldl (\<lambda>best e'. if length (fst best) < length (fst e') then e' else best)
                            e es))))"

text \<open>
  What net/http answers by itself, no handler of the program being called:
  \<^item> \<open>Options_OK\<close>: the server's own answer to \<^verbatim>\<open>OPTIONS *\<close> (status 200, no body);
  \<^item> \<open>Bad_Request\<close>: the router's answer to the request target \<^verbatim>\<open>*\<close> (status 400);
  \<^item> \<open>Redirect_to path\<close>: the router's \<^verbatim>\<open>RedirectHandler\<close> for the cleaned path: a
    redirection (status 301, or 307 with the latest toolchains) whose \<^verbatim>\<open>Location\<close>
    is that path as \<^verbatim>\<open>url.URL.String\<close> writes it, with the raw query of the request,
    and with a short note as body when the method is \<^verbatim>\<open>GET\<close>;
  \<^item> \<open>Not_Found\<close>: the router's \<^verbatim>\<open>NotFoundHandler\<close> (status 404).
\<close>

datatype answer = Options_OK | Bad_Request | Redirect_to string | Not_Found

text \<open>
  \<^verbatim>\<open>ServeMux.Handler\<close>, as of go1.22 and later, for a router in which no pattern but
  \<^verbatim>\<open>/\<close> ends in a slash, so that it never redirects to add one. The router cleans
  the escaped path (not that of a \<^verbatim>\<open>CONNECT\<close> request) and redirects when cleaning
  changed it. Otherwise it matches the path segment by segment, each segment unescaped;
  for patterns without wildcards that is \<open>ServeMux_match\<close> on \<^verbatim>\<open>r.URL.Path\<close>. What
  the router does with a path that does not begin with a slash (the empty path of a
  request in absolute or in authority form) is left open: it is the parameter
  \<open>unrooted\<close>. Toolchains before go1.22 clean and compare \<^verbatim>\<open>r.URL.Path\<close>, the same
  string unless a dot or a slash of the path is percent-encoded.
\<close>

definition ServeMux_Handler ::
  "(Request \<Rightarrow> answer) \<Rightarrow> (string \<times> 'h) list \<Rightarrow> Request \<Rightarrow> answer + 'h" where
  "ServeMux_Handler unrooted m r =
     (let escapedPath = URL_EscapedPath r
      in if take 1 escapedPath \<noteq> ''/'' then Inl (unrooted r)
         else if Method r \<noteq> ''CONNECT'' \<and> cleanPath escapedPath \<noteq> escapedPath
         then Inl (Redirect_to (cleanPath escapedPath))
         else
           case ServeMux_match m (URL_Path r) of
             None \<Rightarrow> Inl Not_Found
           | Some h \<Rightarrow> Inr h)"

text \<open>
  The server sends no body in answer to a \<^verbatim>\<open>HEAD\<close> request: what the handler writes
  to the body is dropped.
\<close>

definition on_wire :: "Request \<Rightarrow> ResponseWriter \<Rightarrow> ResponseWriter" where
  "on_wire r w = (if Method r = ''HEAD'' then w\<lparr>written := []\<rparr> else w)"

section \<open>main\<close>

text \<open>The four \<^verbatim>\<open>http.HandleFunc\<close> calls of \<^verbatim>\<open>main\<close>, in their order.\<close>

definition routes :: "Decoder \<Rightarrow> ('s, 'it, 'd) Client \<Rightarrow> (string \<times> 's HandlerFunc) list" where
  "routes Decode client =
     [(''/'', \<lambda>s w r. Some (homeHandler w r, s)),
      (''/addUser'', \<lambda>s w r. Some (addUserHandler Decode client s w r)),
      (''/getUser'', \<lambda>s w r. Some (getUserHandler client s w r)),
      (''/listUsers'', listUsersHandler client)]"

text \<open>
  The server answering one request: \<^verbatim>\<open>http.ListenAndServe(":8000", nil)\<close> serves with
  the default router. The request target \<^verbatim>\<open>*\<close> (the only one whose path is
  \<^verbatim>\<open>*\<close>) never reaches a handler: the server answers \<^verbatim>\<open>OPTIONS *\<close> itself, and
  the router answers any other method with a bad request. Any other request gets the
  answer of the router or is given, with a response writer of its own, to the handler
  the router chose.
\<close>

definition serve ::
  "(Request \<Rightarrow> answer) \<Rightarrow> Decoder \<Rightarrow> ('s, 'it, 'd) Client \<Rightarrow> 's \<Rightarrow> Request \<Rightarrow>
   ((answer + ResponseWriter) \<times> 's) option" where
  "serve unrooted Decode client s r =
     (if URL_EscapedPath r = ''*''
      then Some (Inl (if Method r = ''OPTIONS'' then Options_OK else Bad_Request), s)
      else
        case ServeMux_Handler unrooted (routes Decode client) r of
          Inl a \<Rightarrow> Some (Inl a, s)
        | Inr h \<Rightarrow> map_option (\<lambda>(w, s'). (Inr (on_wire r w), s')) (h s new_ResponseWriter r))"

text \<open>
  What the process does, in order: a line on standard output, a line of the logger, the
  end of the process with a status, the registration of a pattern, the call of
  \<^verbatim>\<open>http.ListenAndServe\<close> with an address.
\<close>

datatype event = Stdout string | Log string | Exit nat | HandleFunc string | ListenAndServe string

text \<open>\<^verbatim>\<open>log.Fatal\<close> and \<^verbatim>\<open>log.Fatalf\<close>: the message is logged and the process exits with status 1.\<close>

definition log_Fatal :: "string \<Rightarrow> event list" where
  "log_Fatal msg = [Log msg, Exit 1]"

text \<open>
  \<^verbatim>\<open>initFirestore\<close>, given what \<^verbatim>\<open>firestore.NewClient\<close> returns: the events, and
  the global \<^verbatim>\<open>client\<close> when the function returns (it does not after
  \<^verbatim>\<open>log.Fatalf\<close>).
\<close>

definition initFirestore :: "error + 'c \<Rightarrow> event list \<times> 'c option" where
  "initFirestore NewClient =
     (case NewClient of
        Inl err \<Rightarrow> (log_Fatal (''Failed to initialize Firestore: '' @ message err), None)
      | Inr firestoreClient \<Rightarrow>
          ([Stdout ([CHR 0xE2, CHR 0x9C, CHR 0x85] @ '' Connected to Firestore!'' @ [CHR 0x0A])],
           Some firestoreClient))"

text \<open>
  \<^verbatim>\<open>main\<close>. \<open>served\<close> is the error \<^verbatim>\<open>http.ListenAndServe\<close> returns, if it ever
  returns (it returns no nil error).
\<close>

definition main :: "Decoder \<Rightarrow> error + ('s, 'it, 'd) Client \<Rightarrow> error option \<Rightarrow> event list" where
  "main Decode NewClient served =
     (case initFirestore NewClient of
        (evs, None) \<Rightarrow> evs
      | (evs, Some client) \<Rightarrow>
          evs @ map (\<lambda>(pattern, h). HandleFunc pattern) (routes Decode client)
            @ [Stdout ([CHR 0xF0, CHR 0x9F, CHR 0x9A, CHR 0x80]
                 @ '' Server started on http://localhost:8000/'' @ [CHR 0x0A]),
               ListenAndServe '':8000'']
            @ (case served of None \<Rightarrow> [] | Some err \<Rightarrow> log_Fatal (message err)))"

section \<open>Stores to run the handlers on\<close>

text \<open>\<^verbatim>\<open>iterator.Done\<close>\<close>

definition Done :: error where
  "Done = Error ''no more items in iterator''"

text \<open>
  An iterator over a fixed sequence of answers; after the last one it answers
  \<^verbatim>\<open>iterator.Done\<close>.
\<close>

fun list_Next :: "(error + 'd) list \<Rightarrow> (error + 'd) \<times> (error + 'd) list" where
  "list_Next [] = (Inl Done, [])"
| "list_Next (x # xs) = (x, xs)"

text \<open>
  A test double of the client. Its answers to \<^verbatim>\<open>Add\<close>, \<^verbatim>\<open>Get\<close> and the scan
  are fixed in advance, its state counts the writes, and a document says which fields
  \<^verbatim>\<open>DataTo\<close> fills and which error it returns.
\<close>

record stub_doc =
  doc_id :: string
  doc_name :: "string option"
  doc_email :: "string option"
  doc_error :: "error option"

definition stub_DataTo :: "stub_doc \<Rightarrow> User \<Rightarrow> error option \<times> User" where
  "stub_DataTo d u =
     (doc_error d,
      u\<lparr>Name := (case doc_name d of None \<Rightarrow> Name u | Some n \<Rightarrow> n),
        Email := (case doc_email d of None \<Rightarrow> Email u | Some e \<Rightarrow> e)\<rparr>)"

definition stub_Client ::
  "error + string \<Rightarrow> error + stub_doc \<Rightarrow> (error + stub_doc) list \<Rightarrow>
   (nat, (error + stub_doc) list, stub_doc) Client" where
  "stub_Client add get scan =
     \<lparr>Add = (\<lambda>s u. (add, Suc s)), Get = (\<lambda>s i. get), Documents = (\<lambda>s. scan),
      Next = list_Next, DataTo = stub_DataTo, Ref_ID = doc_id\<rparr>"

text \<open>A decoder given by a table of bodies; any other body is an error.\<close>

definition table_Decode :: "(string \<times> User) list \<Rightarrow> Decoder" where
  "table_Decode t b = (case map_of t b of None \<Rightarrow> Inl (Error ''invalid body'') | Some u \<Rightarrow> Inr u)"

text \<open>
  Two cases of \<^verbatim>\<open>json.NewDecoder(body).Decode(&user)\<close> on a zero \<^verbatim>\<open>User\<close>, after the
  documentation of \<^verbatim>\<open>encoding/json\<close>. The decoder reads the first JSON value of the
  body and leaves what follows it unread: a body that begins with the object
  \<^verbatim>\<open>{"name":"n","email":"e"}\<close>, where \<open>n\<close> and \<open>e\<close> are plain (printable ASCII, no
  quote and no backslash), decodes into the record of \<open>n\<close> and \<open>e\<close> whatever comes
  after the closing brace. And the body \<^verbatim>\<open>null\<close> decodes without an error and leaves
  the struct as it was. What the decoder does with any other body is the parameter
  \<open>other\<close>.
\<close>

definition plain :: "char \<Rightarrow> bool" where
  "plain c = (32 \<le> (of_char c :: nat) \<and> (of_char c :: nat) \<le> 126 \<and> c \<noteq> CHR 0x22 \<and> c \<noteq> CHR 0x5C)"

text \<open>What is left of a string after a given beginning, if it begins so.\<close>

fun after :: "string \<Rightarrow> string \<Rightarrow> string option" where
  "after [] b = Some b"
| "after (p # ps) [] = None"
| "after (p # ps) (c # cs) = (if p = c then after ps cs else None)"

definition json_Decode :: "Decoder \<Rightarrow> Decoder" where
  \<open>json_Decode other body =
     (if body = ''null'' then Inr zero_User
      else
        case after ''{"name":"'' body of
          None \<Rightarrow> other body
        | Some b1 \<Rightarrow>
            (case after ''","email":"'' (dropWhile plain b1) of
               None \<Rightarrow> other body
             | Some b2 \<Rightarrow>
                 (case after ''"}'' (dropWhile plain b2) of
                    None \<Rightarrow> other body
                  | Some rest \<Rightarrow> Inr \<lparr>Name = takeWhile plain b1, Email = takeWhile plain b2\<rparr>)))\<close>

text \<open>
  Modelled from the spec: the Document Store Client, an external collaborator of the
  program (sections 2 and 3 of the specification): a document database with
  create-with-generated-id, get-by-id and collection-scan, whose records are
  \<open>name\<close>/\<open>email\<close> structures under an opaque identifier that the store assigns at
  creation, and which is reached over a network. The store holds the collection in the
  order of creation and is online or not; offline, every operation fails.
\<close>

record store =
  docs :: "(string \<times> User) list"
  online :: bool

text \<open>
  Modelled from the spec: the identifier the store assigns at creation. The specification
  asks for an identifier of the store's own making that identifies the record (section 3)
  and is not empty (section 8); here it is one longer than every identifier in use, hence
  new and not empty.
\<close>

definition fresh_id :: "string list \<Rightarrow> string" where
  "fresh_id used = replicate (Suc (foldr (\<lambda>i n. max (length i) n) used 0)) (CHR ''a'')"

definition Unavailable :: error where
  "Unavailable = Error ''unavailable''"

definition NotFound :: error where
  "NotFound = Error ''not found''"

text \<open>Modelled from the spec: create-with-generated-id.\<close>

definition store_Add :: "store \<Rightarrow> User \<Rightarrow> (error + string) \<times> store" where
  "store_Add s u =
     (if online s
      then (let i = fresh_id (map fst (docs s)) in (Inr i, s\<lparr>docs := docs s @ [(i, u)]\<rparr>))
      else (Inl Unavailable, s))"

text \<open>Modelled from the spec: get-by-id.\<close>

definition store_Get :: "store \<Rightarrow> string \<Rightarrow> error + string \<times> User" where
  "store_Get s i =
     (if online s
      then (case map_of (docs s) i of None \<Rightarrow> Inl NotFound | Some u \<Rightarrow> Inr (i, u))
      else Inl Unavailable)"

text \<open>Modelled from the spec: collection-scan.\<close>

definition store_Documents :: "store \<Rightarrow> (error + string \<times> User) list" where
  "store_Documents s = (if online s then map Inr (docs s) else [Inl Unavailable])"

text \<open>Modelled from the spec: the client of that store; a record decodes into itself.\<close>

definition store_Client :: "(store, (error + string \<times> User) list, string \<times> User) Client" where
  "store_Client =
     \<lparr>Add = store_Add, Get = store_Get, Documents = store_Documents,
      Next = list_Next, DataTo = (\<lambda>d u. (None, snd d)), Ref_ID = fst\<rparr>"

section \<open>Notions the properties are stated with\<close>

text \<open>
  The iterator answers the documents \<open>ds\<close>, in this order, and then the error \<open>err\<close>:
  \<open>ds\<close> is what it yields before its first error.
\<close>

fun yields :: "('s, 'it, 'd) Client \<Rightarrow> 'it \<Rightarrow> 'd list \<Rightarrow> error \<Rightarrow> bool" where
  "yields client iter [] err = (fst (Next client iter) = Inl err)"
| "yields client iter (d # ds) err =
     (case Next client iter of
        (Inl e, iter') \<Rightarrow> False
      | (Inr doc, iter') \<Rightarrow> doc = d \<and> yields client iter' ds err)"

text \<open>The object \<^verbatim>\<open>listUsersHandler\<close> appends for a document.\<close>

definition list_entry :: "('s, 'it, 'd) Client \<Rightarrow> 'd \<Rightarrow> json" where
  "list_entry client doc =
     JObject [(''id'', JString (Ref_ID client doc)),
              (''user'', json_User (snd (DataTo client doc zero_User)))]"

text \<open>A run of \<^verbatim>\<open>POST /addUser\<close> requests, one after the other: the responses and the store at the end.\<close>

fun add_all ::
  "Decoder \<Rightarrow> ('s, 'it, 'd) Client \<Rightarrow> 's \<Rightarrow> Request list \<Rightarrow> ResponseWriter list \<times> 's" where
  "add_all Decode client s [] = ([], s)"
| "add_all Decode client s (r # rs) =
     (case addUserHandler Decode client s new_ResponseWriter r of
        (w, s') \<Rightarrow> (case add_all Decode client s' rs of (ws, s'') \<Rightarrow> (w # ws, s'')))"

text \<open>What a successful \<^verbatim>\<open>POST /addUser\<close> leaves in a new response writer.\<close>

definition added :: "string \<Rightarrow> User \<Rightarrow> ResponseWriter" where
  "added i u =
     Write (Encoded (JObject [(''message'', JString ''User added successfully''),
                              (''id'', JString i), (''user'', json_User u)]))
       (Header_Set ''Content-Type'' ''application/json'' new_ResponseWriter)"

section \<open>Sample data\<close>

definition ann :: User where
  "ann = \<lparr>Name = ''Ann'', Email = ''ann@example.com''\<rparr>"

definition bob :: User where
  "bob = \<lparr>Name = ''Bob'', Email = ''bob@example.com''\<rparr>"

definition ann_body :: string where
  \<open>ann_body = ''{"name":"Ann","email":"ann@example.com"}''\<close>

definition bob_body :: string where
  \<open>bob_body = ''{"name":"Bob","email":"bob@example.com"}''\<close>

definition sample_Decode :: Decoder where
  "sample_Decode = table_Decode [(ann_body, ann), (bob_body, bob)]"

text \<open>A request whose path needs no escaping.\<close>

definition request :: "string \<Rightarrow> string \<Rightarrow> (string \<times> string list) list \<Rightarrow> string \<Rightarrow> Request" where
  "request m p q b =
     \<lparr>Method = m, URL_Path = p, URL_EscapedPath = p, URL_Query = map_of q, Body = b\<rparr>"

text \<open>An answer to requests whose path does not begin with a slash.\<close>

definition sample_unrooted :: "Request \<Rightarrow> answer" where
  "sample_unrooted r = Not_Found"

definition empty_store :: store where
  "empty_store = \<lparr>docs = [], online = True\<rparr>"

definition ann_doc :: stub_doc where
  "ann_doc = \<lparr>doc_id = ''id1'', doc_name = Some ''Ann'', doc_email = Some ''ann@example.com'',
              doc_error = None\<rparr>"

definition bob_doc :: stub_doc where
  "bob_doc = \<lparr>doc_id = ''id2'', doc_name = Some ''Bob'', doc_email = Some ''bob@example.com'',
              doc_error = None\<rparr>"

text \<open>A document whose \<open>Email\<close> field does not decode: \<^verbatim>\<open>DataTo\<close> fills the name and returns an error.\<close>

definition odd_doc :: stub_doc where
  "odd_doc = \<lparr>doc_id = ''id3'', doc_name = Some ''Cy'', doc_email = None,
              doc_error = Some (Error ''type mismatch'')\<rparr>"

section \<open>Lemmas\<close>

lemmas writer_defs =
  http_Error_def Write_def WriteHeader_def Header_Set_def status_def new_ResponseWriter_def
  StatusOK_def StatusBadRequest_def StatusNotFound_def StatusMethodNotAllowed_def
  StatusInternalServerError_def

lemmas sample_defs =
  request_def sample_Decode_def table_Decode_def ann_def bob_def ann_body_def bob_body_def
  stub_Client_def stub_DataTo_def ann_doc_def bob_doc_def odd_doc_def empty_store_def
  MethodGet_def MethodPost_def Values_Get_def zero_User_def json_User_def
  Unavailable_def NotFound_def Done_def

lemma status_error_new [simp]: "status (http_Error new_ResponseWriter msg c) = c"
  by (simp add: writer_defs)

lemma written_error_new [simp]:
  "written (http_Error new_ResponseWriter msg c) = [Bytes (msg @ [CHR 0x0A])]"
  by (simp add: writer_defs)

lemma status_encoded_new [simp]:
  "status (Write b (Header_Set k v new_ResponseWriter)) = 200"
  by (simp add: writer_defs)

lemma written_encoded_new [simp]:
  "written (Write b (Header_Set k v new_ResponseWriter)) = [b]"
  by (simp add: writer_defs)

lemma status_added [simp]: "status (added i u) = 200"
  by (simp add: added_def)

lemma written_added [simp]:
  "written (added i u)
     = [Encoded (JObject [(''message'', JString ''User added successfully''),
                          (''id'', JString i), (''user'', json_User u)])]"
  by (simp add: added_def)

subsection \<open>The loop of the list handler\<close>

lemma loop_yields:
  "yields client iter ds err \<Longrightarrow>
   listUsers_loop client iter (Some acc) = Some (Some (acc @ map (list_entry client) ds))"
proof (induction ds arbitrary: iter acc)
  case Nil
  then show ?case
    by (subst listUsers_loop.simps) (auto split: prod.splits sum.splits)
next
  case (Cons d ds)
  then show ?case
    by (subst listUsers_loop.simps) (auto simp: list_entry_def split: prod.splits sum.splits)
qed

lemma listUsers_yields:
  assumes "Method r = MethodGet" and "yields client (Documents client s) ds err"
  shows "listUsersHandler client s w r =
           Some (Write (Encoded (JArray (map (list_entry client) ds)))
                   (Header_Set ''Content-Type'' ''application/json'' w), s)"
  using loop_yields [OF assms(2), of "[]"] assms(1)
  by (simp add: listUsersHandler_def)

text \<open>
  Conversely, the loop returns only through an error of the iterator; until then it
  has appended the documents the iterator yielded.
\<close>

lemma loop_ends:
  assumes "listUsers_loop client iter users = Some out"
  shows "\<exists>ds err. yields client iter ds err
      \<and> out = (case users of None \<Rightarrow> (if ds = [] then None else Some (map (list_entry client) ds))
                | Some acc \<Rightarrow> Some (acc @ map (list_entry client) ds))"
proof -
  let ?P = "\<lambda>client iter users out. \<exists>ds err. yields client iter ds err
      \<and> out = (case users of None \<Rightarrow> (if ds = [] then None else Some (map (list_entry client) ds))
                | Some acc \<Rightarrow> Some (acc @ map (list_entry client) ds))"
  have "?P client iter users out"
  proof (rule listUsers_loop.raw_induct [where P = ?P, OF _ assms])
    fix loop :: "('a, 'b, 'c) Client \<Rightarrow> 'b \<Rightarrow> json slice \<Rightarrow> json slice option"
      and client iter users out
    assume IH: "\<And>c i u y. loop c i u = Some y \<Longrightarrow> ?P c i u y"
      and run: "(case Next client iter of
          (Inl err, iter') \<Rightarrow> Some users
        | (Inr doc, iter') \<Rightarrow>
            (let user = snd (DataTo client doc zero_User)
             in loop client iter'
                  (append_slice users
                     (JObject [(''id'', JString (Ref_ID client doc)), (''user'', json_User user)]))))
        = Some out"
    show "?P client iter users out"
    proof (cases "Next client iter")
      case (Pair res iter')
      show ?thesis
      proof (cases res)
        case (Inl err)
        with Pair run have "yields client iter [] err" "out = users" by simp_all
        then show ?thesis
          by (intro exI [of _ "[]"] exI [of _ err]) (simp split: option.splits)
      next
        case (Inr doc)
        with Pair run have "loop client iter' (append_slice users (list_entry client doc)) = Some out"
          by (simp add: list_entry_def)
        from IH [OF this] obtain ds err where
          "yields client iter' ds err"
          "out = (case append_slice users (list_entry client doc) of
                    None \<Rightarrow> (if ds = [] then None else Some (map (list_entry client) ds))
                  | Some acc \<Rightarrow> Some (acc @ map (list_entry client) ds))"
          by blast
        with Pair Inr show ?thesis
          by (intro exI [of _ "doc # ds"] exI [of _ err]) (cases users; simp)
      qed
    qed
  qed
  then show ?thesis .
qed

lemma yields_unique:
  "yields client iter ds err \<Longrightarrow> yields client iter ds' err' \<Longrightarrow> ds = ds' \<and> err = err'"
proof (induction ds arbitrary: iter ds')
  case Nil
  then show ?case by (cases ds') (auto split: prod.splits sum.splits)
next
  case (Cons d ds)
  then show ?case by (cases ds') (auto split: prod.splits sum.splits)
qed

subsection \<open>The router\<close>

lemma cleanPath_rooted: "cleanPath p = p \<Longrightarrow> take 1 p = ''/''"
  by (cases p) (auto simp: cleanPath_def Let_def path_Clean_def split: if_splits)

lemma match_home:
  assumes "take 1 p = ''/''" and "p \<notin> {''/addUser'', ''/getUser'', ''/listUsers''}"
  shows "ServeMux_match (routes Decode client) p = Some (\<lambda>s w r. Some (homeHandler w r, s))"
proof (cases "p = ''/''")
  case True
  then show ?thesis by (simp add: ServeMux_match_def routes_def)
next
  case False
  with assms show ?thesis
    by (cases p) (auto simp: ServeMux_match_def routes_def)
qed

lemma serve_home:
  assumes "take 1 (URL_EscapedPath r) = ''/''" and "take 1 (URL_Path r) = ''/''"
    and "URL_Path r \<notin> {''/addUser'', ''/getUser'', ''/listUsers''}"
    and "Method r = ''CONNECT'' \<or> cleanPath (URL_EscapedPath r) = URL_EscapedPath r"
  shows "serve unrooted Decode client s r
           = Some (Inr (on_wire r (homeHandler new_ResponseWriter r)), s)"
proof -
  from assms(1) have "URL_EscapedPath r \<noteq> ''*''" by auto
  with assms(1,4) match_home [OF assms(2,3), of Decode client] show ?thesis
    by (auto simp: serve_def ServeMux_Handler_def)
qed

lemma serve_redirect:
  assumes "Method r \<noteq> ''CONNECT''" and "take 1 (URL_EscapedPath r) = ''/''"
    and "cleanPath (URL_EscapedPath r) \<noteq> URL_EscapedPath r"
  shows "serve unrooted Decode client s r
           = Some (Inl (Redirect_to (cleanPath (URL_EscapedPath r))), s)"
proof -
  from assms(2) have "URL_EscapedPath r \<noteq> ''*''" by auto
  with assms show ?thesis
    by (simp add: serve_def ServeMux_Handler_def)
qed

lemma status_on_wire [simp]: "status (on_wire r w) = status w"
  by (simp add: on_wire_def status_def)

subsection \<open>The store of the specification\<close>

lemma length_le_longest: "i \<in> set used \<Longrightarrow> length i \<le> foldr (\<lambda>i n. max (length i) n) used 0"
  by (induction used) auto

lemma fresh_id_new: "fresh_id used \<notin> set used"
proof
  assume "fresh_id used \<in> set used"
  from length_le_longest [OF this] show False
    by (simp add: fresh_id_def)
qed

lemma fresh_id_not_empty: "fresh_id used \<noteq> []"
  by (simp add: fresh_id_def)

lemma map_of_new: "i \<notin> set (map fst xs) \<Longrightarrow> map_of (xs @ (i, u) # ys) i = Some u"
  by (induction xs) auto

lemma store_add_online:
  assumes "Method r = MethodPost" and "Decode (Body r) = Inr user" and "online s"
  shows "addUserHandler Decode store_Client s new_ResponseWriter r
           = (added (fresh_id (map fst (docs s))) user,
              s\<lparr>docs := docs s @ [(fresh_id (map fst (docs s)), user)]\<rparr>)"
  using assms
  by (simp add: addUserHandler_def store_Client_def store_Add_def Let_def added_def)

lemma store_add_offline:
  assumes "Method r = MethodPost" and "Decode (Body r) = Inr user" and "\<not> online s"
  shows "addUserHandler Decode store_Client s new_ResponseWriter r
           = (http_Error new_ResponseWriter ''Error adding user'' StatusInternalServerError, s)"
  using assms
  by (simp add: addUserHandler_def store_Client_def store_Add_def)

lemma store_get_online:
  assumes "Method g = MethodGet" and "Values_Get (URL_Query g) ''id'' = i" and "i \<noteq> []"
    and "online s" and "map_of (docs s) i = Some user"
  shows "getUserHandler store_Client s new_ResponseWriter g
           = (Write (Encoded (JObject [(''id'', JString i), (''user'', json_User user)]))
                (Header_Set ''Content-Type'' ''application/json'' new_ResponseWriter), s)"
  using assms
  by (simp add: getUserHandler_def store_Client_def store_Get_def)

lemma yields_list: "yields store_Client (map Inr ds) ds Done"
  by (induction ds) (simp_all add: store_Client_def)

lemma store_list_online:
  assumes "Method g = MethodGet" and "online s"
  shows "listUsersHandler store_Client s new_ResponseWriter g
           = Some (Write (Encoded (JArray (map (\<lambda>(i, u). JObject [(''id'', JString i),
                                                               (''user'', json_User u)]) (docs s))))
                     (Header_Set ''Content-Type'' ''application/json'' new_ResponseWriter), s)"
proof -
  have "yields store_Client (Documents store_Client s) (docs s) Done"
    using assms(2) yields_list [of "docs s"]
    by (simp add: store_Client_def store_Documents_def)
  moreover have "list_entry store_Client
      = (\<lambda>(i, u). JObject [(''id'', JString i), (''user'', json_User u)])"
    by (simp add: fun_eq_iff list_entry_def store_Client_def)
  ultimately show ?thesis
    using listUsers_yields [OF assms(1), of store_Client s "docs s" Done new_ResponseWriter]
    by metis
qed

lemma add_all_store:
  assumes "online s"
    and "\<forall>r \<in> set rs. Method r = MethodPost \<and> \<not> isl (Decode (Body r))"
    and "add_all Decode store_Client s rs = (ws, s')"
  shows "\<exists>ids. length ids = length rs \<and> online s'
           \<and> docs s' = docs s @ zip ids (map (\<lambda>r. projr (Decode (Body r))) rs)
           \<and> ws = map (\<lambda>(i, r). added i (projr (Decode (Body r)))) (zip ids rs)"
  using assms
proof (induction rs arbitrary: s ws s')
  case Nil
  then show ?case by simp
next
  case (Cons r rs)
  obtain user where user: "Decode (Body r) = Inr user"
    using Cons.prems(2) by (cases "Decode (Body r)") auto
  let ?i = "fresh_id (map fst (docs s))"
  let ?s1 = "s\<lparr>docs := docs s @ [(?i, user)]\<rparr>"
  have step: "addUserHandler Decode store_Client s new_ResponseWriter r = (added ?i user, ?s1)"
    using store_add_online [of r Decode user s] Cons.prems(1,2) user by simp
  obtain ws1 where rest: "add_all Decode store_Client ?s1 rs = (ws1, s')"
    and ws: "ws = added ?i user # ws1"
    using Cons.prems(3) step by (auto split: prod.splits)
  have "online ?s1" using Cons.prems(1) by simp
  moreover have "\<forall>r \<in> set rs. Method r = MethodPost \<and> \<not> isl (Decode (Body r))"
    using Cons.prems(2) by simp
  ultimately obtain ids where ids: "length ids = length rs" "online s'"
      "docs s' = docs ?s1 @ zip ids (map (\<lambda>r. projr (Decode (Body r))) rs)"
      "ws1 = map (\<lambda>(i, r). added i (projr (Decode (Body r)))) (zip ids rs)"
    using Cons.IH [OF _ _ rest] by blast
  show ?case
    using ids ws user
    by (intro exI [of _ "?i # ids"]) simp
qed

section \<open>Properties\<close>

text \<open>
  Claim C1, as amended. A \<^verbatim>\<open>POST\<close> to \<^verbatim>\<open>/addUser\<close> gets status 400 exactly when
  the JSON decoder returns an error for its body. When the body decodes and the store's
  create fails, the status is 500 and the body holds the error line only. When the
  create succeeds, the status is 200 and the body is one JSON object with exactly the
  fields \<open>message\<close> (a string), \<open>id\<close> (the identifier the store returned) and \<open>user\<close>
  (the decoded record).
\<close>

theorem addUser_responses:
  assumes "Method r = MethodPost"
  shows "(status (fst (addUserHandler Decode client s new_ResponseWriter r)) = 400
            \<longleftrightarrow> isl (Decode (Body r)))
       \<and> (\<forall>err. Decode (Body r) = Inl err \<longrightarrow>
            status (fst (addUserHandler Decode client s new_ResponseWriter r)) = 400)
       \<and> (\<forall>user err s'. Decode (Body r) = Inr user \<longrightarrow> Add client s user = (Inl err, s') \<longrightarrow>
            status (fst (addUserHandler Decode client s new_ResponseWriter r)) = 500
          \<and> written (fst (addUserHandler Decode client s new_ResponseWriter r))
              = [Bytes (''Error adding user'' @ [CHR 0x0A])])
       \<and> (\<forall>user i s'. Decode (Body r) = Inr user \<longrightarrow> Add client s user = (Inr i, s') \<longrightarrow>
            status (fst (addUserHandler Decode client s new_ResponseWriter r)) = 200
          \<and> written (fst (addUserHandler Decode client s new_ResponseWriter r))
              = [Encoded (JObject [(''message'', JString ''User added successfully''),
                                   (''id'', JString i),
                                   (''user'', JObject [(''name'', JString (Name user)),
                                                       (''email'', JString (Email user))])])])"
proof -
  have "status (fst (addUserHandler Decode client s new_ResponseWriter r)) = 400
          \<longleftrightarrow> isl (Decode (Body r))"
    using assms
    by (cases "Decode (Body r)")
      (auto simp: addUserHandler_def StatusBadRequest_def StatusInternalServerError_def
        split: prod.splits sum.splits)
  moreover have "status (fst (addUserHandler Decode client s new_ResponseWriter r)) = 400"
    if "Decode (Body r) = Inl err" for err
    using assms that by (simp add: addUserHandler_def StatusBadRequest_def)
  moreover have "status (fst (addUserHandler Decode client s new_ResponseWriter r)) = 500
          \<and> written (fst (addUserHandler Decode client s new_ResponseWriter r))
              = [Bytes (''Error adding user'' @ [CHR 0x0A])]"
    if "Decode (Body r) = Inr user" and "Add client s user = (Inl err, s')" for user err s'
    using assms that by (simp add: addUserHandler_def StatusInternalServerError_def)
  moreover have "status (fst (addUserHandler Decode client s new_ResponseWriter r)) = 200
          \<and> written (fst (addUserHandler Decode client s new_ResponseWriter r))
              = [Encoded (JObject [(''message'', JString ''User added successfully''),
                                   (''id'', JString i),
                                   (''user'', JObject [(''name'', JString (Name user)),
                                                       (''email'', JString (Email user))])])]"
    if "Decode (Body r) = Inr user" and "Add client s user = (Inr i, s')" for user i s'
    using assms that by (simp add: addUserHandler_def json_User_def)
  ultimately show ?thesis by blast
qed

theorem addUser_responses_witness:
  "status (fst (addUserHandler sample_Decode (stub_Client (Inr ''id1'') (Inl NotFound) []) 0
      new_ResponseWriter (request ''POST'' ''/addUser'' [] ''{''))) = 400
 \<and> status (fst (addUserHandler sample_Decode (stub_Client (Inl Unavailable) (Inl NotFound) []) 0
      new_ResponseWriter (request ''POST'' ''/addUser'' [] ann_body))) = 500
 \<and> written (fst (addUserHandler sample_Decode (stub_Client (Inl Unavailable) (Inl NotFound) []) 0
      new_ResponseWriter (request ''POST'' ''/addUser'' [] ann_body)))
     = [Bytes (''Error adding user'' @ [CHR 0x0A])]
 \<and> status (fst (addUserHandler sample_Decode (stub_Client (Inr ''id1'') (Inl NotFound) []) 0
      new_ResponseWriter (request ''POST'' ''/addUser'' [] ann_body))) = 200
 \<and> written (fst (addUserHandler sample_Decode (stub_Client (Inr ''id1'') (Inl NotFound) []) 0
      new_ResponseWriter (request ''POST'' ''/addUser'' [] ann_body)))
     = [Encoded (JObject [(''message'', JString ''User added successfully''),
                          (''id'', JString ''id1''),
                          (''user'', JObject [(''name'', JString ''Ann''),
                                              (''email'', JString ''ann@example.com'')])])]"
  using
    addUser_responses [of "request ''POST'' ''/addUser'' [] ''{''" sample_Decode
      "stub_Client (Inr ''id1'') (Inl NotFound) []" 0]
    addUser_responses [of "request ''POST'' ''/addUser'' [] ann_body" sample_Decode
      "stub_Client (Inl Unavailable) (Inl NotFound) []" 0]
    addUser_responses [of "request ''POST'' ''/addUser'' [] ann_body" sample_Decode
      "stub_Client (Inr ''id1'') (Inl NotFound) []" 0]
  by (simp add: sample_defs)

text \<open>
  The claim as first stated fails. The body made of a well-formed object and the bytes
  \<^verbatim>\<open>garbage\<close> after it is not well-formed JSON, and the body \<^verbatim>\<open>null\<close> is no
  \<open>name\<close>/\<open>email\<close> record; the decoder accepts both, and with a store that creates
  the record the response is status 200 with the success object, not status 400.
\<close>

theorem addUser_body_counterexample:
  "status (fst (addUserHandler (json_Decode (table_Decode []))
      (stub_Client (Inr ''id1'') (Inl NotFound) []) 0
      new_ResponseWriter (request ''POST'' ''/addUser'' [] (ann_body @ ''garbage'')))) = 200
 \<and> written (fst (addUserHandler (json_Decode (table_Decode []))
      (stub_Client (Inr ''id1'') (Inl NotFound) []) 0
      new_ResponseWriter (request ''POST'' ''/addUser'' [] (ann_body @ ''garbage''))))
     = [Encoded (JObject [(''message'', JString ''User added successfully''),
                          (''id'', JString ''id1''),
                          (''user'', JObject [(''name'', JString ''Ann''),
                                              (''email'', JString ''ann@example.com'')])])]
 \<and> status (fst (addUserHandler (json_Decode (table_Decode []))
      (stub_Client (Inr ''id1'') (Inl NotFound) []) 0
      new_ResponseWriter (request ''POST'' ''/addUser'' [] ''null''))) = 200
 \<and> written (fst (addUserHandler (json_Decode (table_Decode []))
      (stub_Client (Inr ''id1'') (Inl NotFound) []) 0
      new_ResponseWriter (request ''POST'' ''/addUser'' [] ''null'')))
     = [Encoded (JObject [(''message'', JString ''User added successfully''),
                          (''id'', JString ''id1''),
                          (''user'', JObject [(''name'', JString []), (''email'', JString [])])])]"
  by (simp add: addUserHandler_def json_Decode_def plain_def sample_defs)

text \<open>
  Claim C2. On the store of the specification: for every payload that decodes to a
  record, a \<^verbatim>\<open>POST\<close> to \<^verbatim>\<open>/addUser\<close> that succeeds (status 200) returns an
  identifier that is not empty and a \<open>user\<close> object with the name and the email of the
  decoded record, and the store holds that record under that identifier.
\<close>

theorem addUser_echoes_input:
  assumes "Method r = MethodPost" and "Decode (Body r) = Inr user"
    and "addUserHandler Decode store_Client s new_ResponseWriter r = (w, s')"
    and "status w = 200"
  shows "\<exists>i. i \<noteq> []
           \<and> written w = [Encoded (JObject [(''message'', JString ''User added successfully''),
                                            (''id'', JString i),
                                            (''user'', JObject [(''name'', JString (Name user)),
                                                                (''email'', JString (Email user))])])]
           \<and> map_of (docs s') i = Some user"
proof (cases "online s")
  case True
  let ?i = "fresh_id (map fst (docs s))"
  from store_add_online [of r Decode user s] assms(1,2,3) True
  have w: "w = added ?i user" and s': "s' = s\<lparr>docs := docs s @ [(?i, user)]\<rparr>"
    by simp_all
  have "map_of (docs s') ?i = Some user"
    using map_of_new [OF fresh_id_new, of "docs s" user "[]"] s' by simp
  with w show ?thesis
    using fresh_id_not_empty [of "map fst (docs s)"]
    by (intro exI [of _ ?i]) (simp add: json_User_def)
next
  case False
  from store_add_offline [of r Decode user s] assms(1,2,3,4) False show ?thesis
    by (auto simp: StatusInternalServerError_def)
qed

theorem addUser_echoes_input_witness:
  "\<exists>i. i \<noteq> []
     \<and> written (fst (addUserHandler sample_Decode store_Client empty_store new_ResponseWriter
                      (request ''POST'' ''/addUser'' [] ann_body)))
         = [Encoded (JObject [(''message'', JString ''User added successfully''),
                              (''id'', JString i),
                              (''user'', JObject [(''name'', JString ''Ann''),
                                                  (''email'', JString ''ann@example.com'')])])]
     \<and> map_of (docs (snd (addUserHandler sample_Decode store_Client empty_store new_ResponseWriter
                            (request ''POST'' ''/addUser'' [] ann_body)))) i = Some ann"
proof -
  let ?r = "request ''POST'' ''/addUser'' [] ann_body"
  let ?out = "addUserHandler sample_Decode store_Client empty_store new_ResponseWriter ?r"
  have eq: "?out = (added ''a'' ann, \<lparr>docs = [(''a'', ann)], online = True\<rparr>)"
    by (simp add: addUserHandler_def store_Client_def store_Add_def fresh_id_def added_def Let_def
        request_def sample_Decode_def table_Decode_def empty_store_def MethodPost_def)
  have "Method ?r = MethodPost" and "sample_Decode (Body ?r) = Inr ann"
    by (simp_all add: request_def MethodPost_def sample_Decode_def table_Decode_def)
  moreover have "?out = (fst ?out, snd ?out)" by simp
  moreover have "status (fst ?out) = 200" by (simp add: eq)
  ultimately show ?thesis
    using addUser_echoes_input [of ?r sample_Decode ann empty_store "fst ?out" "snd ?out"]
    by (simp add: ann_def)
qed

text \<open>
  Claim C3. A \<^verbatim>\<open>GET\<close> to \<^verbatim>\<open>/getUser\<close> whose query has no \<open>id\<close> parameter, or an
  empty one, gets status 400. With an \<open>id\<close>, every failure of the store lookup gets the
  same response, with status 404, whatever the error of the lookup is.
\<close>

theorem getUser_lookup_errors:
  assumes "Method r = MethodGet"
  shows "(URL_Query r ''id'' = None \<or> Values_Get (URL_Query r) ''id'' = [] \<longrightarrow>
            status (fst (getUserHandler client s new_ResponseWriter r)) = 400)
       \<and> (\<forall>err. Values_Get (URL_Query r) ''id'' \<noteq> [] \<longrightarrow>
            Get client s (Values_Get (URL_Query r) ''id'') = Inl err \<longrightarrow>
            getUserHandler client s new_ResponseWriter r
              = (http_Error new_ResponseWriter ''User not found'' StatusNotFound, s)
          \<and> status (fst (getUserHandler client s new_ResponseWriter r)) = 404)"
  using assms
  by (auto simp: getUserHandler_def Values_Get_def StatusBadRequest_def StatusNotFound_def)

theorem getUser_lookup_errors_witness:
  "status (fst (getUserHandler (stub_Client (Inl Unavailable) (Inl NotFound) []) 0 new_ResponseWriter
      (request ''GET'' ''/getUser'' [] []))) = 400
 \<and> status (fst (getUserHandler (stub_Client (Inl Unavailable) (Inl NotFound) []) 0 new_ResponseWriter
      (request ''GET'' ''/getUser'' [(''id'', [[]])] []))) = 400
 \<and> status (fst (getUserHandler (stub_Client (Inl Unavailable) (Inl NotFound) []) 0 new_ResponseWriter
      (request ''GET'' ''/getUser'' [(''id'', [''doesNotExist''])] []))) = 404
 \<and> getUserHandler (stub_Client (Inl Unavailable) (Inl NotFound) []) 0 new_ResponseWriter
      (request ''GET'' ''/getUser'' [(''id'', [''id1''])] [])
    = getUserHandler (stub_Client (Inl Unavailable) (Inl Unavailable) []) 0 new_ResponseWriter
      (request ''GET'' ''/getUser'' [(''id'', [''id1''])] [])"
  using
    getUser_lookup_errors [of "request ''GET'' ''/getUser'' [] []"
      "stub_Client (Inl Unavailable) (Inl NotFound) []" 0]
    getUser_lookup_errors [of "request ''GET'' ''/getUser'' [(''id'', [[]])] []"
      "stub_Client (Inl Unavailable) (Inl NotFound) []" 0]
    getUser_lookup_errors [of "request ''GET'' ''/getUser'' [(''id'', [''doesNotExist''])] []"
      "stub_Client (Inl Unavailable) (Inl NotFound) []" 0]
    getUser_lookup_errors [of "request ''GET'' ''/getUser'' [(''id'', [''id1''])] []"
      "stub_Client (Inl Unavailable) (Inl NotFound) []" 0]
    getUser_lookup_errors [of "request ''GET'' ''/getUser'' [(''id'', [''id1''])] []"
      "stub_Client (Inl Unavailable) (Inl Unavailable) []" 0]
  by (simp add: sample_defs StatusNotFound_def)

text \<open>
  Claim C4. On the store of the specification: when a \<^verbatim>\<open>POST\<close> to \<^verbatim>\<open>/addUser\<close>
  has returned the identifier \<open>i\<close> for a record, a later \<^verbatim>\<open>GET\<close> to
  \<^verbatim>\<open>/getUser?id=i\<close>, on a store that is online and still holds what it held after
  the add (and whatever was created later), gets status 200 and the JSON object whose
  \<open>id\<close> is \<open>i\<close> and whose \<open>user\<close> is that record.
\<close>

theorem add_then_get:
  assumes "Method r = MethodPost" and "Decode (Body r) = Inr user"
    and "addUserHandler Decode store_Client s new_ResponseWriter r = (w, s')"
    and "written w = [Encoded (JObject [(''message'', m), (''id'', JString i), (''user'', u)])]"
    and "Method g = MethodGet" and "Values_Get (URL_Query g) ''id'' = i"
    and "online s''" and "docs s'' = docs s' @ later"
  shows "getUserHandler store_Client s'' new_ResponseWriter g
           = (Write (Encoded (JObject [(''id'', JString i),
                                       (''user'', JObject [(''name'', JString (Name user)),
                                                           (''email'', JString (Email user))])]))
                (Header_Set ''Content-Type'' ''application/json'' new_ResponseWriter), s'')
       \<and> status (fst (getUserHandler store_Client s'' new_ResponseWriter g)) = 200"
proof (cases "online s")
  case True
  let ?i = "fresh_id (map fst (docs s))"
  from store_add_online [of r Decode user s] assms(1,2,3) True
  have w: "w = added ?i user" and s': "s' = s\<lparr>docs := docs s @ [(?i, user)]\<rparr>"
    by simp_all
  from w assms(4) have i: "i = ?i" by simp
  have "map_of (docs s'') i = Some user"
    using map_of_new [OF fresh_id_new, of "docs s" user later] s' i assms(8) by simp
  moreover have "i \<noteq> []"
    using i fresh_id_not_empty by simp
  ultimately show ?thesis
    using store_get_online [OF assms(5,6) _ assms(7), of user]
    by (simp add: json_User_def)
next
  case False
  from store_add_offline [of r Decode user s] assms(1,2,3,4) False show ?thesis
    by auto
qed

theorem add_then_get_witness:
  "getUserHandler store_Client \<lparr>docs = [(''a'', ann), (''aa'', bob)], online = True\<rparr>
     new_ResponseWriter (request ''GET'' ''/getUser'' [(''id'', [''a''])] [])
   = (Write (Encoded (JObject [(''id'', JString ''a''),
                               (''user'', JObject [(''name'', JString ''Ann''),
                                                   (''email'', JString ''ann@example.com'')])]))
        (Header_Set ''Content-Type'' ''application/json'' new_ResponseWriter),
      \<lparr>docs = [(''a'', ann), (''aa'', bob)], online = True\<rparr>)"
proof -
  let ?r = "request ''POST'' ''/addUser'' [] ann_body"
  let ?g = "request ''GET'' ''/getUser'' [(''id'', [''a''])] []"
  have "addUserHandler sample_Decode store_Client empty_store new_ResponseWriter ?r
          = (added ''a'' ann, \<lparr>docs = [(''a'', ann)], online = True\<rparr>)"
    by (simp add: addUserHandler_def store_Client_def store_Add_def fresh_id_def added_def Let_def
        request_def sample_Decode_def table_Decode_def empty_store_def MethodPost_def)
  moreover have "Method ?r = MethodPost" and "sample_Decode (Body ?r) = Inr ann"
    and "Method ?g = MethodGet" and "Values_Get (URL_Query ?g) ''id'' = ''a''"
    by (simp_all add: request_def MethodPost_def MethodGet_def sample_Decode_def table_Decode_def
        Values_Get_def)
  moreover have "written (added ''a'' ann)
      = [Encoded (JObject [(''message'', JString ''User added successfully''),
                           (''id'', JString ''a''), (''user'', json_User ann)])]"
    by simp
  ultimately show ?thesis
    using add_then_get [of ?r sample_Decode ann empty_store "added ''a'' ann"
        "\<lparr>docs = [(''a'', ann)], online = True\<rparr>" "JString ''User added successfully''" "''a''"
        "json_User ann" ?g "\<lparr>docs = [(''a'', ann), (''aa'', bob)], online = True\<rparr>" "[(''aa'', bob)]"]
    by (simp add: ann_def)
qed

text \<open>
  Claim C5. On the store of the specification, when it is online (the scan runs to its
  end): a \<^verbatim>\<open>GET\<close> to \<^verbatim>\<open>/listUsers\<close> on an empty collection returns the JSON array
  \<^verbatim>\<open>[]\<close>, not \<^verbatim>\<open>null\<close>; after a run of \<open>N\<close> adds that succeed it returns an array of
  at least \<open>N\<close> elements, in which every added record stands as an object with the
  identifier its add returned and the record. Nothing is said of the order.
\<close>

theorem listUsers_after_adds:
  assumes "online s" and "Method g = MethodGet"
    and "\<forall>r \<in> set rs. Method r = MethodPost \<and> \<not> isl (Decode (Body r))"
    and "add_all Decode store_Client s rs = (ws, s')"
  shows "(docs s = [] \<longrightarrow>
            listUsersHandler store_Client s new_ResponseWriter g
              = Some (Write (Encoded (JArray []))
                        (Header_Set ''Content-Type'' ''application/json'' new_ResponseWriter), s))
       \<and> (\<exists>es. listUsersHandler store_Client s' new_ResponseWriter g
                  = Some (Write (Encoded (JArray es))
                            (Header_Set ''Content-Type'' ''application/json'' new_ResponseWriter), s')
              \<and> length rs \<le> length es
              \<and> (\<forall>k < length rs. \<exists>i.
                    written (ws ! k)
                      = [Encoded (JObject [(''message'', JString ''User added successfully''),
                                           (''id'', JString i),
                                           (''user'', json_User (projr (Decode (Body (rs ! k)))))])]
                  \<and> JObject [(''id'', JString i),
                              (''user'', json_User (projr (Decode (Body (rs ! k)))))] \<in> set es))"
proof -
  let ?entry = "\<lambda>(i, u). JObject [(''id'', JString i), (''user'', json_User u)]"
  let ?users = "map (\<lambda>r. projr (Decode (Body r))) rs"
  have empty: "listUsersHandler store_Client s new_ResponseWriter g
              = Some (Write (Encoded (JArray []))
                        (Header_Set ''Content-Type'' ''application/json'' new_ResponseWriter), s)"
    if "docs s = []"
    using store_list_online [OF assms(2,1)] that by simp
  obtain ids where ids: "length ids = length rs" "online s'"
      "docs s' = docs s @ zip ids ?users"
      "ws = map (\<lambda>(i, r). added i (projr (Decode (Body r)))) (zip ids rs)"
    using add_all_store [OF assms(1,3,4)] by blast
  let ?es = "map ?entry (docs s')"
  have list: "listUsersHandler store_Client s' new_ResponseWriter g
                = Some (Write (Encoded (JArray ?es))
                          (Header_Set ''Content-Type'' ''application/json'' new_ResponseWriter), s')"
    using store_list_online [OF assms(2) ids(2)] .
  have len: "length rs \<le> length ?es"
    using ids(1,3) by simp
  have each: "\<exists>i. written (ws ! k)
                      = [Encoded (JObject [(''message'', JString ''User added successfully''),
                                           (''id'', JString i),
                                           (''user'', json_User (projr (Decode (Body (rs ! k)))))])]
                  \<and> JObject [(''id'', JString i),
                              (''user'', json_User (projr (Decode (Body (rs ! k)))))] \<in> set ?es"
    if k: "k < length rs" for k
  proof -
    have "ws ! k = added (ids ! k) (projr (Decode (Body (rs ! k))))"
      using ids(1,4) k by simp
    moreover have "(ids ! k, projr (Decode (Body (rs ! k)))) \<in> set (docs s')"
      using ids(1,3) k by (auto simp: in_set_zip intro!: exI [of _ k])
    then have "?entry (ids ! k, projr (Decode (Body (rs ! k)))) \<in> set ?es"
      by (simp only: set_map) (rule imageI)
    ultimately show ?thesis
      by (intro exI [of _ "ids ! k"]) simp
  qed
  from empty list len each show ?thesis by blast
qed

theorem listUsers_after_adds_witness:
  "listUsersHandler store_Client empty_store new_ResponseWriter (request ''GET'' ''/listUsers'' [] [])
     = Some (Write (Encoded (JArray []))
               (Header_Set ''Content-Type'' ''application/json'' new_ResponseWriter), empty_store)
 \<and> (\<exists>es. listUsersHandler store_Client \<lparr>docs = [(''a'', ann), (''aa'', bob)], online = True\<rparr>
             new_ResponseWriter (request ''GET'' ''/listUsers'' [] [])
           = Some (Write (Encoded (JArray es))
                     (Header_Set ''Content-Type'' ''application/json'' new_ResponseWriter),
                   \<lparr>docs = [(''a'', ann), (''aa'', bob)], online = True\<rparr>)
       \<and> 2 \<le> length es
       \<and> JObject [(''id'', JString ''a''), (''user'', json_User ann)] \<in> set es
       \<and> JObject [(''id'', JString ''aa''), (''user'', json_User bob)] \<in> set es)"
proof -
  let ?g = "request ''GET'' ''/listUsers'' [] []"
  let ?rs = "[request ''POST'' ''/addUser'' [] ann_body, request ''POST'' ''/addUser'' [] bob_body]"
  let ?s' = "\<lparr>docs = [(''a'', ann), (''aa'', bob)], online = True\<rparr>"
  let ?ws = "[added ''a'' ann, added ''aa'' bob]"
  have run: "add_all sample_Decode store_Client empty_store ?rs = (?ws, ?s')"
    by (simp add: addUserHandler_def store_Client_def store_Add_def fresh_id_def added_def Let_def
        request_def sample_Decode_def table_Decode_def empty_store_def MethodPost_def
        ann_body_def bob_body_def)
  have pre: "online empty_store" "Method ?g = MethodGet"
    "\<forall>r \<in> set ?rs. Method r = MethodPost \<and> \<not> isl (sample_Decode (Body r))"
    by (simp_all add: request_def MethodPost_def MethodGet_def sample_Decode_def table_Decode_def
        empty_store_def ann_body_def bob_body_def)
  have dec: "projr (sample_Decode (Body (?rs ! 0))) = ann" "projr (sample_Decode (Body (?rs ! 1))) = bob"
    by (simp_all add: request_def sample_Decode_def table_Decode_def ann_body_def bob_body_def)
  from listUsers_after_adds [OF pre run]
  obtain es where first: "listUsersHandler store_Client empty_store new_ResponseWriter ?g
        = Some (Write (Encoded (JArray []))
                  (Header_Set ''Content-Type'' ''application/json'' new_ResponseWriter), empty_store)"
    and list: "listUsersHandler store_Client ?s' new_ResponseWriter ?g
        = Some (Write (Encoded (JArray es))
                  (Header_Set ''Content-Type'' ''application/json'' new_ResponseWriter), ?s')"
    and len: "length ?rs \<le> length es"
    and each: "\<And>k. k < length ?rs \<Longrightarrow> \<exists>i.
          written (?ws ! k)
            = [Encoded (JObject [(''message'', JString ''User added successfully''),
                                 (''id'', JString i),
                                 (''user'', json_User (projr (sample_Decode (Body (?rs ! k)))))])]
        \<and> JObject [(''id'', JString i),
                    (''user'', json_User (projr (sample_Decode (Body (?rs ! k)))))] \<in> set es"
    by (auto simp: empty_store_def)
  from each [of 0] have "JObject [(''id'', JString ''a''), (''user'', json_User ann)] \<in> set es"
    by (simp add: dec)
  moreover from each [of 1] have "JObject [(''id'', JString ''aa''), (''user'', json_User bob)] \<in> set es"
    by (simp add: dec)
  ultimately show ?thesis
    using first list len by auto
qed

text \<open>
  Claim C6. A \<^verbatim>\<open>GET\<close> to \<^verbatim>\<open>/listUsers\<close> returns exactly the records the iterator
  yields before its first error, be the error the end of the collection or a failure of
  the store: the loop ends there without a trace, and the response is status 200 with
  the array read so far. Every response the handler gives is of this kind, never an
  error status. Two scans that yield the same documents before their first error get
  the same response, so a complete listing and a cut one cannot be told apart.
\<close>

theorem listUsers_truncates:
  assumes "Method r = MethodGet"
  shows "(\<forall>ds err. yields client (Documents client s) ds err \<longrightarrow>
            listUsersHandler client s new_ResponseWriter r
              = Some (Write (Encoded (JArray (map (list_entry client) ds)))
                        (Header_Set ''Content-Type'' ''application/json'' new_ResponseWriter), s))
       \<and> (\<forall>w s'. listUsersHandler client s new_ResponseWriter r = Some (w, s') \<longrightarrow>
            s' = s \<and> status w = 200
          \<and> (\<exists>ds err. yields client (Documents client s) ds err
                \<and> written w = [Encoded (JArray (map (list_entry client) ds))]))
       \<and> (\<forall>ds err err' s'. yields client (Documents client s) ds err \<longrightarrow>
            yields client (Documents client s') ds err' \<longrightarrow>
            map_option fst (listUsersHandler client s' new_ResponseWriter r)
              = map_option fst (listUsersHandler client s new_ResponseWriter r))"
proof -
  have to: "listUsersHandler client s' new_ResponseWriter r
              = Some (Write (Encoded (JArray (map (list_entry client) ds)))
                        (Header_Set ''Content-Type'' ''application/json'' new_ResponseWriter), s')"
    if "yields client (Documents client s') ds err" for s' ds err
    using listUsers_yields [OF assms that] .
  have "from": "s' = s \<and> status w = 200
          \<and> (\<exists>ds err. yields client (Documents client s) ds err
                \<and> written w = [Encoded (JArray (map (list_entry client) ds))])"
    if ret: "listUsersHandler client s new_ResponseWriter r = Some (w, s')" for w s'
  proof -
    from ret assms obtain users
      where loop: "listUsers_loop client (Documents client s) (Some []) = Some users"
      by (auto simp: listUsersHandler_def split: option.splits)
    from loop_ends [OF loop] obtain ds err
      where ds: "yields client (Documents client s) ds err"
      by auto
    from to [OF ds] ret have "s' = s"
      and "w = Write (Encoded (JArray (map (list_entry client) ds)))
                 (Header_Set ''Content-Type'' ''application/json'' new_ResponseWriter)"
      by simp_all
    with ds show ?thesis by auto
  qed
  have same: "map_option fst (listUsersHandler client s' new_ResponseWriter r)
                = map_option fst (listUsersHandler client s new_ResponseWriter r)"
    if "yields client (Documents client s) ds err" and "yields client (Documents client s') ds err'"
    for ds err err' s'
    using to [OF that(1)] to [OF that(2)] by simp
  from to "from" same show ?thesis by blast
qed

theorem listUsers_truncates_witness:
  "map_option (\<lambda>(w, s). (status w, written w))
     (listUsersHandler (stub_Client (Inl Unavailable) (Inl NotFound)
                          [Inr ann_doc, Inl Unavailable, Inr bob_doc])
        0 new_ResponseWriter (request ''GET'' ''/listUsers'' [] []))
   = Some (200, [Encoded (JArray [JObject [(''id'', JString ''id1''),
                                           (''user'', JObject [(''name'', JString ''Ann''),
                                                               (''email'', JString ''ann@example.com'')])]])])
 \<and> map_option fst
     (listUsersHandler (stub_Client (Inl Unavailable) (Inl NotFound)
                          [Inr ann_doc, Inl Unavailable, Inr bob_doc])
        0 new_ResponseWriter (request ''GET'' ''/listUsers'' [] []))
   = map_option fst
     (listUsersHandler (stub_Client (Inl Unavailable) (Inl NotFound) [Inr ann_doc])
        0 new_ResponseWriter (request ''GET'' ''/listUsers'' [] []))"
proof -
  let ?g = "request ''GET'' ''/listUsers'' [] []"
  let ?cut = "stub_Client (Inl Unavailable) (Inl NotFound) [Inr ann_doc, Inl Unavailable, Inr bob_doc]"
  let ?all = "stub_Client (Inl Unavailable) (Inl NotFound) [Inr ann_doc]"
  have g: "Method ?g = MethodGet"
    by (simp add: request_def MethodGet_def)
  have cut: "yields ?cut (Documents ?cut 0) [ann_doc] Unavailable"
    by (simp add: stub_Client_def)
  have all: "yields ?all (Documents ?all 0) [ann_doc] Done"
    by (simp add: stub_Client_def)
  have entry: "list_entry ?cut ann_doc = list_entry ?all ann_doc"
    "list_entry ?cut ann_doc
       = JObject [(''id'', JString ''id1''),
                  (''user'', JObject [(''name'', JString ''Ann''),
                                      (''email'', JString ''ann@example.com'')])]"
    by (simp_all add: list_entry_def stub_Client_def stub_DataTo_def ann_doc_def zero_User_def
        json_User_def)
  from listUsers_truncates [OF g, of ?cut 0] cut
  have "listUsersHandler ?cut 0 new_ResponseWriter ?g
          = Some (Write (Encoded (JArray (map (list_entry ?cut) [ann_doc])))
                    (Header_Set ''Content-Type'' ''application/json'' new_ResponseWriter), 0)"
    by blast
  moreover from listUsers_truncates [OF g, of ?all 0] all
  have "listUsersHandler ?all 0 new_ResponseWriter ?g
          = Some (Write (Encoded (JArray (map (list_entry ?all) [ann_doc])))
                    (Header_Set ''Content-Type'' ''application/json'' new_ResponseWriter), 0)"
    by blast
  ultimately show ?thesis
    using entry by simp
qed

text \<open>
  Claim C7. A request with a method other than \<^verbatim>\<open>GET\<close> to the list or the get
  handler, and one with a method other than \<^verbatim>\<open>POST\<close> to the add handler, gets
  status 405; the response is the same whatever the store client is, and the store is
  left as it was: no operation of the store is called.
\<close>

theorem method_gating:
  "(Method r \<noteq> MethodGet \<longrightarrow>
      listUsersHandler client s new_ResponseWriter r
        = Some (http_Error new_ResponseWriter ''Invalid request method'' StatusMethodNotAllowed, s)
    \<and> getUserHandler client s new_ResponseWriter r
        = (http_Error new_ResponseWriter ''Invalid request method'' StatusMethodNotAllowed, s))
 \<and> (Method r \<noteq> MethodPost \<longrightarrow>
      addUserHandler Decode client s new_ResponseWriter r
        = (http_Error new_ResponseWriter ''Invalid request method'' StatusMethodNotAllowed, s))
 \<and> status (http_Error new_ResponseWriter ''Invalid request method'' StatusMethodNotAllowed) = 405"
  by (simp add: listUsersHandler_def getUserHandler_def addUserHandler_def StatusMethodNotAllowed_def)

theorem method_gating_witness:
  "status (fst (addUserHandler sample_Decode (stub_Client (Inr ''id1'') (Inr ann_doc) [Inr ann_doc]) 0
      new_ResponseWriter (request ''GET'' ''/addUser'' [] ann_body))) = 405
 \<and> snd (addUserHandler sample_Decode (stub_Client (Inr ''id1'') (Inr ann_doc) [Inr ann_doc]) 0
      new_ResponseWriter (request ''GET'' ''/addUser'' [] ann_body)) = 0
 \<and> status (fst (getUserHandler (stub_Client (Inr ''id1'') (Inr ann_doc) [Inr ann_doc]) 0
      new_ResponseWriter (request ''POST'' ''/getUser'' [(''id'', [''id1''])] []))) = 405
 \<and> map_option (status \<circ> fst) (listUsersHandler (stub_Client (Inr ''id1'') (Inr ann_doc) [Inr ann_doc]) 0
      new_ResponseWriter (request ''DELETE'' ''/listUsers'' [] [])) = Some 405"
  using
    method_gating [of "request ''GET'' ''/addUser'' [] ann_body"
      "stub_Client (Inr ''id1'') (Inr ann_doc) [Inr ann_doc]" 0 sample_Decode]
    method_gating [of "request ''POST'' ''/getUser'' [(''id'', [''id1''])] []"
      "stub_Client (Inr ''id1'') (Inr ann_doc) [Inr ann_doc]" 0 sample_Decode]
    method_gating [of "request ''DELETE'' ''/listUsers'' [] []"
      "stub_Client (Inr ''id1'') (Inr ann_doc) [Inr ann_doc]" 0 sample_Decode]
  by (simp add: request_def MethodGet_def MethodPost_def)

text \<open>
  Claim C8. When the store client cannot be created at startup, the process logs the
  failure and exits: it registers no handler and never calls
  \<^verbatim>\<open>http.ListenAndServe\<close>. When the client is created, the process registers its
  four patterns and then calls \<^verbatim>\<open>http.ListenAndServe\<close> once, with the address
  \<^verbatim>\<open>:8000\<close>.
\<close>

theorem startup:
  "(\<forall>err. main Decode (Inl err) served
            = [Log (''Failed to initialize Firestore: '' @ message err), Exit 1])
 \<and> (\<forall>client. [addr. ListenAndServe addr \<leftarrow> main Decode (Inr client) served] = ['':8000'']
      \<and> [p. HandleFunc p \<leftarrow> takeWhile (\<lambda>e. e \<noteq> ListenAndServe '':8000'')
                                (main Decode (Inr client) served)]
          = [''/'', ''/addUser'', ''/getUser'', ''/listUsers''])"
  by (auto simp: main_def initFirestore_def log_Fatal_def routes_def split: option.splits)

text \<open>
  Claim C9, as amended. Take a request whose path begins with a slash and is none of
  \<^verbatim>\<open>/addUser\<close>, \<^verbatim>\<open>/getUser\<close>, \<^verbatim>\<open>/listUsers\<close>. When its escaped path is in
  canonical form (\<^verbatim>\<open>cleanPath\<close> leaves it as it is: it has no repeated slash and no
  \<^verbatim>\<open>.\<close> or \<^verbatim>\<open>..\<close> element), or when its method is \<^verbatim>\<open>CONNECT\<close>, the request
  is served by the home handler whatever its method: status 200 and the static page
  (no body in answer to \<^verbatim>\<open>HEAD\<close>), the store untouched. When its escaped path is not
  in canonical form and its method is not \<^verbatim>\<open>CONNECT\<close>, no handler is called: the
  router answers with a redirect to the cleaned path. In neither case is the answer
  a 404.
\<close>

theorem unknown_path_home:
  assumes "URL_Path r \<notin> {''/addUser'', ''/getUser'', ''/listUsers''}"
    and "take 1 (URL_Path r) = ''/''"
  shows "(cleanPath (URL_EscapedPath r) = URL_EscapedPath r
            \<or> Method r = ''CONNECT'' \<and> take 1 (URL_EscapedPath r) = ''/'' \<longrightarrow>
          serve unrooted Decode client s r
            = Some (Inr (on_wire r (homeHandler new_ResponseWriter r)), s))
       \<and> status (on_wire r (homeHandler new_ResponseWriter r)) = 200
       \<and> written (on_wire r (homeHandler new_ResponseWriter r))
           = (if Method r = ''HEAD'' then [] else [Bytes tmpl])
       \<and> (Method r \<noteq> ''CONNECT'' \<and> take 1 (URL_EscapedPath r) = ''/''
            \<and> cleanPath (URL_EscapedPath r) \<noteq> URL_EscapedPath r \<longrightarrow>
          serve unrooted Decode client s r
            = Some (Inl (Redirect_to (cleanPath (URL_EscapedPath r))), s))
       \<and> (take 1 (URL_EscapedPath r) = ''/'' \<longrightarrow>
          serve unrooted Decode client s r \<noteq> Some (Inl Not_Found, s))"
proof -
  let ?home = "Some (Inr (on_wire r (homeHandler new_ResponseWriter r)), s)"
  let ?redirect = "Some (Inl (Redirect_to (cleanPath (URL_EscapedPath r))), s)"
  have home: "serve unrooted Decode client s r = ?home"
    if "cleanPath (URL_EscapedPath r) = URL_EscapedPath r
          \<or> Method r = ''CONNECT'' \<and> take 1 (URL_EscapedPath r) = ''/''"
    using that cleanPath_rooted [of "URL_EscapedPath r"]
      serve_home [OF _ assms(2,1), of unrooted Decode client s]
    by blast
  have page: "status (on_wire r (homeHandler new_ResponseWriter r)) = 200"
    "written (on_wire r (homeHandler new_ResponseWriter r))
           = (if Method r = ''HEAD'' then [] else [Bytes tmpl])"
    by (simp_all add: on_wire_def homeHandler_def writer_defs)
  have redirect: "serve unrooted Decode client s r = ?redirect"
    if "Method r \<noteq> ''CONNECT'' \<and> take 1 (URL_EscapedPath r) = ''/''
            \<and> cleanPath (URL_EscapedPath r) \<noteq> URL_EscapedPath r"
    using that serve_redirect [of r unrooted Decode client s] by simp
  have found: "serve unrooted Decode client s r \<noteq> Some (Inl Not_Found, s)"
    if "take 1 (URL_EscapedPath r) = ''/''"
  proof (cases "Method r = ''CONNECT'' \<or> cleanPath (URL_EscapedPath r) = URL_EscapedPath r")
    case True
    with that home show ?thesis by auto
  next
    case False
    with that redirect show ?thesis by auto
  qed
  from home page redirect found show ?thesis by blast
qed

theorem unknown_path_home_witness:
  "serve sample_unrooted sample_Decode (stub_Client (Inl Unavailable) (Inl NotFound) []) 0
     (request ''DELETE'' ''/foo'' [] [])
   = Some (Inr (homeHandler new_ResponseWriter (request ''DELETE'' ''/foo'' [] [])), 0)
 \<and> map_option (\<lambda>(a, s). map_sum id (\<lambda>w. (status w, written w)) a)
     (serve sample_unrooted sample_Decode (stub_Client (Inl Unavailable) (Inl NotFound) []) 0
        (request ''HEAD'' ''/foo/'' [] []))
   = Some (Inr (200, []))
 \<and> serve sample_unrooted sample_Decode (stub_Client (Inl Unavailable) (Inl NotFound) []) 0
     \<lparr>Method = ''GET'', URL_Path = ''/./foo'', URL_EscapedPath = ''/%2E/foo'',
      URL_Query = Map.empty, Body = []\<rparr>
   = Some (Inr (homeHandler new_ResponseWriter
                  \<lparr>Method = ''GET'', URL_Path = ''/./foo'', URL_EscapedPath = ''/%2E/foo'',
                   URL_Query = Map.empty, Body = []\<rparr>), 0)
 \<and> serve sample_unrooted sample_Decode (stub_Client (Inl Unavailable) (Inl NotFound) []) 0
     (request ''CONNECT'' ''//foo'' [] [])
   = Some (Inr (homeHandler new_ResponseWriter (request ''CONNECT'' ''//foo'' [] [])), 0)
 \<and> serve sample_unrooted sample_Decode (stub_Client (Inl Unavailable) (Inl NotFound) []) 0
     (request ''POST'' ''/a/../foo'' [] [])
   = Some (Inl (Redirect_to ''/foo''), 0)"
  using
    unknown_path_home [of "request ''DELETE'' ''/foo'' [] []" sample_unrooted
      sample_Decode "stub_Client (Inl Unavailable) (Inl NotFound) []" 0]
    unknown_path_home [of "request ''HEAD'' ''/foo/'' [] []" sample_unrooted
      sample_Decode "stub_Client (Inl Unavailable) (Inl NotFound) []" 0]
    unknown_path_home [of "\<lparr>Method = ''GET'', URL_Path = ''/./foo'', URL_EscapedPath = ''/%2E/foo'',
        URL_Query = Map.empty, Body = []\<rparr>" sample_unrooted
      sample_Decode "stub_Client (Inl Unavailable) (Inl NotFound) []" 0]
    unknown_path_home [of "request ''CONNECT'' ''//foo'' [] []" sample_unrooted
      sample_Decode "stub_Client (Inl Unavailable) (Inl NotFound) []" 0]
    unknown_path_home [of "request ''POST'' ''/a/../foo'' [] []" sample_unrooted
      sample_Decode "stub_Client (Inl Unavailable) (Inl NotFound) []" 0]
  by (simp add: request_def cleanPath_def path_Clean_def on_wire_def)

text \<open>
  The claim as first stated fails: \<^verbatim>\<open>GET //foo\<close> is a request whose path is none of
  the three, and the home handler does not serve it: the router answers it with a
  redirect to \<^verbatim>\<open>/foo\<close>.
\<close>

theorem unknown_path_counterexample:
  "serve sample_unrooted sample_Decode (stub_Client (Inl Unavailable) (Inl NotFound) []) 0
     (request ''GET'' ''//foo'' [] [])
   = Some (Inl (Redirect_to ''/foo''), 0)"
  by (simp add: serve_def ServeMux_Handler_def cleanPath_def path_Clean_def request_def)

text \<open>
  Claim C10. When the lookup of \<^verbatim>\<open>GET /getUser\<close> succeeds and \<^verbatim>\<open>doc.DataTo\<close>
  returns an error, the error is dropped: the status is 200 and the \<open>user\<close> object is
  the struct as \<^verbatim>\<open>DataTo\<close> left it, starting from the zero value; where
  \<^verbatim>\<open>DataTo\<close> filled nothing, both fields are empty strings.
\<close>

theorem getUser_ignores_decode_error:
  assumes "Method r = MethodGet"
    and "Values_Get (URL_Query r) ''id'' = userID" and "userID \<noteq> []"
    and "Get client s userID = Inr doc"
    and "DataTo client doc zero_User = (Some err, user)"
  shows "status (fst (getUserHandler client s new_ResponseWriter r)) = 200
       \<and> written (fst (getUserHandler client s new_ResponseWriter r))
           = [Encoded (JObject [(''id'', JString userID),
                                (''user'', JObject [(''name'', JString (Name user)),
                                                    (''email'', JString (Email user))])])]
       \<and> (user = zero_User \<longrightarrow>
            written (fst (getUserHandler client s new_ResponseWriter r))
              = [Encoded (JObject [(''id'', JString userID),
                                   (''user'', JObject [(''name'', JString []),
                                                       (''email'', JString [])])])])"
  using assms
  by (auto simp: getUserHandler_def json_User_def zero_User_def)

theorem getUser_ignores_decode_error_witness:
  "status (fst (getUserHandler (stub_Client (Inl Unavailable) (Inr odd_doc) []) 0 new_ResponseWriter
      (request ''GET'' ''/getUser'' [(''id'', [''id3''])] []))) = 200
 \<and> written (fst (getUserHandler (stub_Client (Inl Unavailable) (Inr odd_doc) []) 0 new_ResponseWriter
      (request ''GET'' ''/getUser'' [(''id'', [''id3''])] [])))
    = [Encoded (JObject [(''id'', JString ''id3''),
                         (''user'', JObject [(''name'', JString ''Cy''), (''email'', JString [])])])]"
  using getUser_ignores_decode_error
    [of "request ''GET'' ''/getUser'' [(''id'', [''id3''])] []" "''id3''"
        "stub_Client (Inl Unavailable) (Inr odd_doc) []" 0 odd_doc
        "Error ''type mismatch''" "\<lparr>Name = ''Cy'', Email = []\<rparr>"]
  by (simp add: sample_defs)

end
